theory Spec2Isabelle
  imports Complex_Main
begin

section \<open>Double-precision values\<close>

text \<open>
  A C++ \<^verbatim>\<open>double\<close> is either a finite number or one of the IEEE-754 special values.
  The special values follow IEEE-754, so that the \<^verbatim>\<open>std::isfinite\<close> test and the
  comparisons of the source keep their branches. A finite result is the exact real
  result: rounding, overflow and underflow of finite arithmetic are not modelled, and
  there is one zero (a zero divisor counts as +0). Equalities between computed values
  that hold only up to rounding are therefore outside this development; the statements
  below are made where the double computation is exact (zeros, signs, the branches
  taken), on inputs far from overflow.
\<close>

datatype double = Fin real | PInf | NInf | NaN

fun isfinite :: "double \<Rightarrow> bool" where
  "isfinite (Fin a) = True"
| "isfinite PInf = False"
| "isfinite NInf = False"
| "isfinite NaN = False"

fun dneg :: "double \<Rightarrow> double" where
  "dneg (Fin a) = Fin (- a)"
| "dneg PInf = NInf"
| "dneg NInf = PInf"
| "dneg NaN = NaN"

fun dabs :: "double \<Rightarrow> double" where
  "dabs (Fin a) = Fin \<bar>a\<bar>"
| "dabs PInf = PInf"
| "dabs NInf = PInf"
| "dabs NaN = NaN"

fun dadd :: "double \<Rightarrow> double \<Rightarrow> double" where
  "dadd (Fin a) (Fin b) = Fin (a + b)"
| "dadd NaN y = NaN"
| "dadd x NaN = NaN"
| "dadd PInf NInf = NaN"
| "dadd NInf PInf = NaN"
| "dadd PInf y = PInf"
| "dadd NInf y = NInf"
| "dadd (Fin a) y = y"

definition dsub :: "double \<Rightarrow> double \<Rightarrow> double" where
  "dsub x y = dadd x (dneg y)"

fun dmul :: "double \<Rightarrow> double \<Rightarrow> double" where
  "dmul (Fin a) (Fin b) = Fin (a * b)"
| "dmul NaN y = NaN"
| "dmul x NaN = NaN"
| "dmul (Fin a) y = (if a = 0 then NaN else if (0 < a) = (y = PInf) then PInf else NInf)"
| "dmul x (Fin b) = (if b = 0 then NaN else if (0 < b) = (x = PInf) then PInf else NInf)"
| "dmul x y = (if x = y then PInf else NInf)"

fun ddiv :: "double \<Rightarrow> double \<Rightarrow> double" where
  "ddiv (Fin a) (Fin b) =
     (if b \<noteq> 0 then Fin (a / b)
      else if a = 0 then NaN else if 0 < a then PInf else NInf)"
| "ddiv NaN y = NaN"
| "ddiv x NaN = NaN"
| "ddiv (Fin a) y = Fin 0"
| "ddiv x (Fin b) = (if (0 \<le> b) = (x = PInf) then PInf else NInf)"
| "ddiv x y = NaN"

fun dsqrt :: "double \<Rightarrow> double" where
  "dsqrt (Fin a) = (if 0 \<le> a then Fin (sqrt a) else NaN)"
| "dsqrt PInf = PInf"
| "dsqrt NInf = NaN"
| "dsqrt NaN = NaN"

fun dsin :: "double \<Rightarrow> double" where
  "dsin (Fin a) = Fin (sin a)"
| "dsin x = NaN"

fun dcos :: "double \<Rightarrow> double" where
  "dcos (Fin a) = Fin (cos a)"
| "dcos x = NaN"

text \<open>\<^verbatim>\<open>std::pow\<close> with a small non-negative integer exponent.\<close>

primrec dpow :: "double \<Rightarrow> nat \<Rightarrow> double" where
  "dpow x 0 = Fin 1"
| "dpow x (Suc n) = dmul x (dpow x n)"

text \<open>The comparisons \<^verbatim>\<open>>\<close> and \<^verbatim>\<open>!=\<close>: every ordered comparison with a NaN is
  false, and \<^verbatim>\<open>!=\<close> with a NaN is true.\<close>

fun dgt :: "double \<Rightarrow> double \<Rightarrow> bool" where
  "dgt (Fin a) (Fin b) = (b < a)"
| "dgt NaN y = False"
| "dgt x NaN = False"
| "dgt NInf y = False"
| "dgt x PInf = False"
| "dgt x y = True"

fun dne :: "double \<Rightarrow> double \<Rightarrow> bool" where
  "dne NaN y = True"
| "dne x NaN = True"
| "dne x y = (x \<noteq> y)"

text \<open>
  \<^verbatim>\<open>M_PI\<close> is the double nearest to pi, 3.141592653589793115997963..., with the bit
  pattern 0x400921FB54442D18: the integer 884279719003555 divided by \<open>2 ^ 48\<close>.
\<close>

definition M_PI :: double where
  "M_PI = Fin (884279719003555 / 281474976710656)"

section \<open>Eigen vectors and matrices\<close>

datatype vec3 = Vec3 double double double

text \<open>A 3x3 matrix, given by its rows: \<^verbatim>\<open>m(i, j)\<close> is component \<open>j\<close> of row \<open>i\<close>.\<close>

datatype mat3 = Mat3 vec3 vec3 vec3

definition Identity :: mat3 where
  "Identity = Mat3 (Vec3 (Fin 1) (Fin 0) (Fin 0))
                   (Vec3 (Fin 0) (Fin 1) (Fin 0))
                   (Vec3 (Fin 0) (Fin 0) (Fin 1))"


fun vsub :: "vec3 \<Rightarrow> vec3 \<Rightarrow> vec3" where
  "vsub (Vec3 a0 a1 a2) (Vec3 b0 b1 b2) = Vec3 (dsub a0 b0) (dsub a1 b1) (dsub a2 b2)"

text \<open>\<^verbatim>\<open>v.array().abs()\<close>: the absolute value of every component.\<close>

fun array_abs :: "vec3 \<Rightarrow> vec3" where
  "array_abs (Vec3 a0 a1 a2) = Vec3 (dabs a0) (dabs a1) (dabs a2)"

fun dot :: "vec3 \<Rightarrow> vec3 \<Rightarrow> double" where
  "dot (Vec3 a0 a1 a2) (Vec3 b0 b1 b2) = dadd (dadd (dmul a0 b0) (dmul a1 b1)) (dmul a2 b2)"

definition squaredNorm :: "vec3 \<Rightarrow> double" where
  "squaredNorm v = dot v v"

definition norm_vec :: "vec3 \<Rightarrow> double" where
  "norm_vec v = dsqrt (squaredNorm v)"

fun cross :: "vec3 \<Rightarrow> vec3 \<Rightarrow> vec3" where
  "cross (Vec3 a0 a1 a2) (Vec3 b0 b1 b2) =
     Vec3 (dsub (dmul a1 b2) (dmul a2 b1))
          (dsub (dmul a2 b0) (dmul a0 b2))
          (dsub (dmul a0 b1) (dmul a1 b0))"

fun vdiv :: "vec3 \<Rightarrow> double \<Rightarrow> vec3" where
  "vdiv (Vec3 a0 a1 a2) s = Vec3 (ddiv a0 s) (ddiv a1 s) (ddiv a2 s)"

fun vscale :: "double \<Rightarrow> vec3 \<Rightarrow> vec3" where
  "vscale s (Vec3 a0 a1 a2) = Vec3 (dmul s a0) (dmul s a1) (dmul s a2)"

text \<open>
  \<^verbatim>\<open>MatrixBase::normalized()\<close> of Eigen 3.3 and later (the versions ROS 2 builds against):
  \<^verbatim>\<open>z = n.squaredNorm(); if (z > 0) return n / sqrt(z); else return n;\<close>
  A vector of norm zero is returned as it is; no division by zero takes place.
\<close>

definition normalized :: "vec3 \<Rightarrow> vec3" where
  "normalized n =
     (let z = squaredNorm n
      in if dgt z (Fin 0) then vdiv n (dsqrt z) else n)"

text \<open>The product of a matrix and a column vector.\<close>

fun mat_vec :: "mat3 \<Rightarrow> vec3 \<Rightarrow> vec3" where
  "mat_vec (Mat3 r0 r1 r2) v = Vec3 (dot r0 v) (dot r1 v) (dot r2 v)"

section \<open>The circle trajectory\<close>

record circle =
  vehicle_speed_m :: double
  center_m :: vec3
  normal_m :: vec3
  radius_m :: double
  rotation_m :: mat3

text \<open>
  The members \<^verbatim>\<open>vehicle_speed_\<close>, \<^verbatim>\<open>center_\<close>, \<^verbatim>\<open>normal_\<close>, \<^verbatim>\<open>radius_\<close> and
  \<^verbatim>\<open>rotation_\<close> of the class are the fields of the record, with the suffix \<open>_m\<close> in
  place of the trailing underscore.
\<close>

text \<open>
  Modelled from the spec: the initial value of \<^verbatim>\<open>rotation_\<close>. The class declaration
  (\<^verbatim>\<open>circle.hpp\<close>) is not among the sources; the constructor assigns the matrix only
  inside its branch, and the specification says that the matrix is otherwise left as the
  identity.
\<close>

definition rotation_init :: mat3 where
  "rotation_init = Identity"

text \<open>
  The constructor. The three loops of step 3 copy \<open>u1\<close>, \<open>u2\<close> and \<open>u3\<close> into rows
  0, 1 and 2 of the matrix.
\<close>

definition Circle :: "vec3 \<Rightarrow> vec3 \<Rightarrow> double \<Rightarrow> double \<Rightarrow> circle" where
  "Circle center normal radius vehicle_speed =
     (let this = \<lparr>vehicle_speed_m = vehicle_speed, center_m = center, normal_m = normal,
                  radius_m = radius, rotation_m = rotation_init\<rparr>;
          base_normal = Vec3 (Fin 0) (Fin 0) (Fin 1);
          absolute_normal = array_abs (normal_m this)
      in if dgt (norm_vec (vsub absolute_normal base_normal)) (Fin (1 / 10000)) then
           (let u3 = normalized (normal_m this);
                u1 = normalized (cross u3 base_normal);
                u2 = normalized (cross u3 u1)
            in this\<lparr>rotation_m := Mat3 u1 u2 u3\<rparr>)
         else this)"


definition d_pd :: "circle \<Rightarrow> double \<Rightarrow> vec3" where
  "d_pd c gamma =
     (let v = Vec3 (dmul (dmul (dmul (dneg (radius_m c)) (Fin 2)) M_PI)
                         (dsin (dmul (dmul gamma (Fin 2)) M_PI)))
                   (dmul (dmul (dmul (radius_m c) (Fin 2)) M_PI)
                         (dcos (dmul (dmul gamma (Fin 2)) M_PI)))
                   (Fin 0)
      in mat_vec (rotation_m c) v)"

definition d2_pd :: "circle \<Rightarrow> double \<Rightarrow> vec3" where
  "d2_pd c gamma =
     (let dd = Vec3 (dmul (dmul (dneg (radius_m c)) (dpow (dmul (Fin 2) M_PI) 2))
                          (dcos (dmul (dmul gamma (Fin 2)) M_PI)))
                    (dmul (dmul (dneg (radius_m c)) (dpow (dmul (Fin 2) M_PI) 2))
                          (dsin (dmul (dmul gamma (Fin 2)) M_PI)))
                    (Fin 0)
      in mat_vec (rotation_m c) dd)"

definition d3_pd :: "circle \<Rightarrow> double \<Rightarrow> vec3" where
  "d3_pd c gamma =
     (let dd = Vec3 (dmul (dmul (radius_m c) (dpow (dmul (Fin 2) M_PI) 3))
                          (dsin (dmul (dmul gamma (Fin 2)) M_PI)))
                    (dmul (dmul (dneg (radius_m c)) (dpow (dmul (Fin 2) M_PI) 3))
                          (dcos (dmul (dmul gamma (Fin 2)) M_PI)))
                    (Fin 0)
      in mat_vec (rotation_m c) dd)"

text \<open>
  The heading \<^verbatim>\<open>yaw\<close> (an \<^verbatim>\<open>atan2\<close> of the vector to the center) is not part of this
  development.
\<close>

definition d_yaw :: "circle \<Rightarrow> double \<Rightarrow> double" where
  "d_yaw c gamma = Fin 0"

definition vehicle_speed :: "circle \<Rightarrow> double \<Rightarrow> double" where
  "vehicle_speed c gamma = vehicle_speed_m c"

definition vd :: "circle \<Rightarrow> double \<Rightarrow> double" where
  "vd c gamma =
     (let vd0 = Fin 0;
          derivative_norm = norm_vec (d_pd c gamma);
          vd1 = (if dne derivative_norm (Fin 0) then ddiv (vehicle_speed_m c) derivative_norm
                 else vd0);
          vd2 = (if \<not> isfinite vd1 then Fin (1 / 100000000) else vd1)
      in vd2)"

section \<open>Properties of vectors and matrices\<close>

text \<open>A vector or matrix is finite when none of its entries is infinite or NaN.\<close>

fun finite_vec :: "vec3 \<Rightarrow> bool" where
  "finite_vec (Vec3 a0 a1 a2) = (isfinite a0 \<and> isfinite a1 \<and> isfinite a2)"

fun finite_mat :: "mat3 \<Rightarrow> bool" where
  "finite_mat (Mat3 r0 r1 r2) = (finite_vec r0 \<and> finite_vec r1 \<and> finite_vec r2)"

text \<open>A matrix is orthonormal when its three rows are unit vectors orthogonal to one another.\<close>

fun orthonormal :: "mat3 \<Rightarrow> bool" where
  "orthonormal (Mat3 u1 u2 u3) =
     (dot u1 u1 = Fin 1 \<and> dot u2 u2 = Fin 1 \<and> dot u3 u3 = Fin 1 \<and>
      dot u1 u2 = Fin 0 \<and> dot u1 u3 = Fin 0 \<and> dot u2 u3 = Fin 0)"

section \<open>Finite values\<close>

lemma isfiniteE: "isfinite d \<Longrightarrow> (\<And>a. d = Fin a \<Longrightarrow> P) \<Longrightarrow> P"
  by (cases d) auto

lemma finite_vecE:
  assumes "finite_vec v"
  obtains x y z where "v = Vec3 (Fin x) (Fin y) (Fin z)"
  using assms by (cases v) (auto elim!: isfiniteE)

lemma dadd_isfinite: "isfinite (dadd a b) \<Longrightarrow> isfinite a \<and> isfinite b"
  by (cases a; cases b) auto

lemma dmul_self_isfinite: "isfinite (dmul a a) \<Longrightarrow> isfinite a"
  by (cases a) auto

lemma dot_self_Fin: "dot u u = Fin r \<Longrightarrow> finite_vec u"
proof (cases u)
  case (Vec3 a b c)
  assume "dot u u = Fin r"
  then have "isfinite (dadd (dadd (dmul a a) (dmul b b)) (dmul c c))" using Vec3 by simp
  then show ?thesis using Vec3 by (auto dest!: dadd_isfinite dmul_self_isfinite)
qed

lemma normalized_pos:
  assumes "0 < a*a+b*b+c*c"
  shows "normalized (Vec3 (Fin a) (Fin b) (Fin c)) =
     Vec3 (Fin (a / sqrt (a*a+b*b+c*c))) (Fin (b / sqrt (a*a+b*b+c*c))) (Fin (c / sqrt (a*a+b*b+c*c)))"
  using assms by (simp add: normalized_def squaredNorm_def Let_def)

lemma normalized_zero:
  "normalized (Vec3 (Fin 0) (Fin 0) (Fin 0)) = Vec3 (Fin 0) (Fin 0) (Fin 0)"
  by (simp add: normalized_def squaredNorm_def Let_def)

lemma cross_Fin: "cross (Vec3 (Fin a0) (Fin a1) (Fin a2)) (Vec3 (Fin b0) (Fin b1) (Fin b2)) =
   Vec3 (Fin (a1 * b2 - a2 * b1)) (Fin (a2 * b0 - a0 * b2)) (Fin (a0 * b1 - a1 * b0))"
  by (simp add: dsub_def)

lemma dot_Fin: "dot (Vec3 (Fin a0) (Fin a1) (Fin a2)) (Vec3 (Fin b0) (Fin b1) (Fin b2)) =
   Fin (a0 * b0 + a1 * b1 + a2 * b2)"
  by simp

section \<open>The frame built by the constructor\<close>

lemma frame_real:
  fixes p q r :: real
  assumes unit: "p*p + q*q + r*r = 1" and pq: "p \<noteq> 0 \<or> q \<noteq> 0"
  defines "\<rho> \<equiv> sqrt (q*q + (-p)*(-p) + 0*0)"
  defines "A \<equiv> q * (0/\<rho>) - r * (-p/\<rho>)" and "B \<equiv> r * (q/\<rho>) - p * (0/\<rho>)" and "C \<equiv> p * (-p/\<rho>) - q * (q/\<rho>)"
  shows "0 < q*q + (-p)*(-p) + 0*0" 
    and "A*A + B*B + C*C = 1"
    and "(q/\<rho>)*(q/\<rho>) + (-p/\<rho>)*(-p/\<rho>) + (0/\<rho>)*(0/\<rho>) = 1"
    and "(q/\<rho>)*A + (-p/\<rho>)*B + (0/\<rho>)*C = 0"
    and "(q/\<rho>)*p + (-p/\<rho>)*q + (0/\<rho>)*r = 0"
    and "A*p + B*q + C*r = 0"
proof -
  have pos: "0 < p*p + q*q"
    using pq by (metis add_pos_nonneg add_nonneg_pos mult_eq_0_iff not_real_square_gt_zero zero_le_square)
  then show "0 < q*q + (-p)*(-p) + 0*0" by (simp add: add.commute)
  have rho2: "\<rho> * \<rho> = p*p + q*q"
    unfolding \<rho>_def using pos by (simp add: add.commute)
  have rho0: "\<rho> \<noteq> 0" using rho2 pos by auto
  have nz: "p*p + q*q \<noteq> 0" using pos by linarith
  have A: "A = r * p / \<rho>" and B: "B = r * q / \<rho>" by (simp_all add: A_def B_def)
  have C: "C = - \<rho>"
  proof -
    have "C = - (p*p + q*q) / \<rho>" by (simp add: C_def field_simps rho0)
    also have "\<dots> = - (\<rho> * \<rho>) / \<rho>" by (simp only: rho2)
    also have "\<dots> = - \<rho>" using rho0 by simp
    finally show ?thesis .
  qed
  have "A*A + B*B = r*r * (p*p + q*q) / (\<rho> * \<rho>)"
    using rho0 by (simp add: A B field_simps)
  also have "\<dots> = r*r * (p*p + q*q) / (p*p + q*q)" by (simp only: rho2)
  also have "\<dots> = r*r" by (rule nonzero_mult_div_cancel_right [OF nz])
  finally have AB: "A*A + B*B = r*r" .
  show "A*A + B*B + C*C = 1" using AB C rho2 unit by simp
  have "(q/\<rho>)*(q/\<rho>) + (-p/\<rho>)*(-p/\<rho>) = (p*p + q*q) / (\<rho> * \<rho>)"
    using rho0 by (simp add: field_simps)
  also have "\<dots> = (p*p + q*q) / (p*p + q*q)" by (simp only: rho2)
  also have "\<dots> = 1" by (rule divide_self [OF nz])
  finally show "(q/\<rho>)*(q/\<rho>) + (-p/\<rho>)*(-p/\<rho>) + (0/\<rho>)*(0/\<rho>) = 1"
    by simp
  show "(q/\<rho>)*A + (-p/\<rho>)*B + (0/\<rho>)*C = 0" by (simp add: A B)
  show "(q/\<rho>)*p + (-p/\<rho>)*q + (0/\<rho>)*r = 0" by simp
  have "A*p + B*q = r * (p*p + q*q) / \<rho>" using rho0 by (simp add: A B field_simps)
  also have "\<dots> = r * (\<rho> * \<rho>) / \<rho>" by (simp only: rho2)
  also have "\<dots> = r * \<rho>" using rho0 by simp
  finally show "A*p + B*q + C*r = 0" using C by simp
qed

lemma frame_orthonormal:
  fixes x y z :: real
  assumes xy: "x \<noteq> 0 \<or> y \<noteq> 0"
  defines "u3 \<equiv> normalized (Vec3 (Fin x) (Fin y) (Fin z))"
  defines "u1 \<equiv> normalized (cross u3 (Vec3 (Fin 0) (Fin 0) (Fin 1)))"
  defines "u2 \<equiv> normalized (cross u3 u1)"
  shows "orthonormal (Mat3 u1 u2 u3)"
proof -
  define L where "L = sqrt (x*x + y*y + z*z)"
  define p q r where "p = x / L" and "q = y / L" and "r = z / L"
  have pos: "0 < x*x + y*y + z*z"
    using xy by (metis add_pos_nonneg add_nonneg_pos mult_eq_0_iff not_real_square_gt_zero zero_le_square)
  have L2: "L * L = x*x + y*y + z*z" unfolding L_def using pos by simp
  have L0: "L \<noteq> 0" using L2 pos by auto
  have "p*p + q*q + r*r = (x*x + y*y + z*z) / (L * L)"
    using L0 by (simp add: p_def q_def r_def field_simps)
  also have "\<dots> = (L * L) / (L * L)" by (simp only: L2)
  also have "\<dots> = 1" using L0 by simp
  finally have unit: "p*p + q*q + r*r = 1" .
  have pq: "p \<noteq> 0 \<or> q \<noteq> 0" using xy L0 by (simp add: p_def q_def r_def)
  note fr = frame_real [OF unit pq]
  define \<rho> where "\<rho> = sqrt (q*q + (-p)*(-p) + 0*0)"
  define A B C where "A = q * (0/\<rho>) - r * (-p/\<rho>)" and "B = r * (q/\<rho>) - p * (0/\<rho>)"
    and "C = p * (-p/\<rho>) - q * (q/\<rho>)"
  have u3: "u3 = Vec3 (Fin p) (Fin q) (Fin r)"
    unfolding u3_def p_def q_def r_def L_def by (rule normalized_pos [OF pos])
  have w: "cross u3 (Vec3 (Fin 0) (Fin 0) (Fin 1)) = Vec3 (Fin q) (Fin (-p)) (Fin 0)"
    by (simp add: u3 dsub_def)
  have u1: "u1 = Vec3 (Fin (q/\<rho>)) (Fin (-p/\<rho>)) (Fin (0/\<rho>))"
    unfolding u1_def w \<rho>_def by (rule normalized_pos [OF fr(1)])
  have c2: "cross u3 u1 = Vec3 (Fin A) (Fin B) (Fin C)"
    unfolding u3 u1 A_def B_def C_def by (rule cross_Fin)
  have ABC: "A*A + B*B + C*C = 1" unfolding A_def B_def C_def \<rho>_def by (rule fr(2))
  have "u2 = Vec3 (Fin (A / sqrt (A*A + B*B + C*C))) (Fin (B / sqrt (A*A + B*B + C*C)))
               (Fin (C / sqrt (A*A + B*B + C*C)))"
    unfolding u2_def c2 by (rule normalized_pos) (simp add: ABC)
  then have u2: "u2 = Vec3 (Fin A) (Fin B) (Fin C)" by (simp add: ABC)
  have e11: "(q/\<rho>)*(q/\<rho>) + (-p/\<rho>)*(-p/\<rho>) + (0/\<rho>)*(0/\<rho>) = 1"
    unfolding \<rho>_def by (rule fr(3))
  have e12: "(q/\<rho>)*A + (-p/\<rho>)*B + (0/\<rho>)*C = 0"
    unfolding A_def B_def C_def \<rho>_def by (rule fr(4))
  have e13: "(q/\<rho>)*p + (-p/\<rho>)*q + (0/\<rho>)*r = 0"
    unfolding \<rho>_def by (rule fr(5))
  have e23: "A*p + B*q + C*r = 0"
    unfolding A_def B_def C_def \<rho>_def by (rule fr(6))
  show ?thesis
    unfolding u1 u2 u3 orthonormal.simps dot_Fin
    by (simp only: e11 e12 e13 e23 ABC unit)
qed

lemma orthonormal_finite:
  assumes "orthonormal R"
  shows "finite_mat R"
proof -
  obtain u1 u2 u3 where R: "R = Mat3 u1 u2 u3" by (cases R)
  from assms R have o: "dot u1 u1 = Fin 1" "dot u2 u2 = Fin 1" "dot u3 u3 = Fin 1" by simp_all
  have "finite_vec u1" "finite_vec u2" "finite_vec u3"
    by (rule dot_self_Fin [OF o(1)], rule dot_self_Fin [OF o(2)], rule dot_self_Fin [OF o(3)])
  then show ?thesis by (simp add: R)
qed

lemma Circle_rotation_identity:
  assumes "\<not> dgt (norm_vec (vsub (array_abs normal) (Vec3 (Fin 0) (Fin 0) (Fin 1)))) (Fin (1 / 10000))"
  shows "rotation_m (Circle center normal radius speed) = Identity"
  using assms by (simp add: Circle_def Let_def rotation_init_def)

lemma Circle_rotation_general:
  assumes "dgt (norm_vec (vsub (array_abs normal) (Vec3 (Fin 0) (Fin 0) (Fin 1)))) (Fin (1 / 10000))"
  shows "rotation_m (Circle center normal radius speed) =
    Mat3 (normalized (cross (normalized normal) (Vec3 (Fin 0) (Fin 0) (Fin 1))))
         (normalized (cross (normalized normal)
            (normalized (cross (normalized normal) (Vec3 (Fin 0) (Fin 0) (Fin 1))))))
         (normalized normal)"
  using assms by (simp add: Circle_def Let_def)

lemma normalized_axis:
  "normalized (Vec3 (Fin 0) (Fin 0) (Fin z)) = Vec3 (Fin 0) (Fin 0) (Fin (sgn z))"
  by (simp add: normalized_def squaredNorm_def Let_def real_sgn_eq)

lemma frame_axis:
  "Mat3 (normalized (cross (normalized (Vec3 (Fin 0) (Fin 0) (Fin z))) (Vec3 (Fin 0) (Fin 0) (Fin 1))))
         (normalized (cross (normalized (Vec3 (Fin 0) (Fin 0) (Fin z)))
            (normalized (cross (normalized (Vec3 (Fin 0) (Fin 0) (Fin z))) (Vec3 (Fin 0) (Fin 0) (Fin 1))))))
         (normalized (Vec3 (Fin 0) (Fin 0) (Fin z)))
   = Mat3 (Vec3 (Fin 0) (Fin 0) (Fin 0)) (Vec3 (Fin 0) (Fin 0) (Fin 0)) (Vec3 (Fin 0) (Fin 0) (Fin (sgn z)))"
  by (simp add: normalized_axis dsub_def normalized_zero)

lemma Circle_rotation_finite:
  assumes "finite_vec normal"
  shows "finite_mat (rotation_m (Circle center normal radius speed))"
proof -
  obtain x y z where n: "normal = Vec3 (Fin x) (Fin y) (Fin z)"
    using assms by (rule finite_vecE)
  let ?t = "dgt (norm_vec (vsub (array_abs normal) (Vec3 (Fin 0) (Fin 0) (Fin 1)))) (Fin (1 / 10000))"
  consider (ident) "\<not> ?t" | (axis) "?t" "x = 0" "y = 0" | (gen) "?t" "x \<noteq> 0 \<or> y \<noteq> 0"
    by blast
  then show ?thesis
  proof cases
    case ident
    have "rotation_m (Circle center normal radius speed) = Identity"
      by (rule Circle_rotation_identity [OF ident])
    then show ?thesis by (simp add: Identity_def)
  next
    case axis
    have "rotation_m (Circle center normal radius speed) =
        Mat3 (Vec3 (Fin 0) (Fin 0) (Fin 0)) (Vec3 (Fin 0) (Fin 0) (Fin 0)) (Vec3 (Fin 0) (Fin 0) (Fin (sgn z)))"
      using Circle_rotation_general [OF axis(1), of center radius speed]
      unfolding n axis(2,3) by (simp only: frame_axis)
    then show ?thesis by simp
  next
    case gen
    have "orthonormal (rotation_m (Circle center normal radius speed))"
      using Circle_rotation_general [OF gen(1), of center radius speed] frame_orthonormal [OF gen(2), of z]
      unfolding n by (simp only:)
    then show ?thesis by (rule orthonormal_finite)
  qed
qed

lemma finite_matE:
  assumes "finite_mat R"
  obtains a b c d e f g h i :: real where
    "R = Mat3 (Vec3 (Fin a) (Fin b) (Fin c)) (Vec3 (Fin d) (Fin e) (Fin f)) (Vec3 (Fin g) (Fin h) (Fin i))"
proof -
  obtain u1 u2 u3 where R: "R = Mat3 u1 u2 u3" by (cases R)
  from assms R have f: "finite_vec u1" "finite_vec u2" "finite_vec u3" by simp_all
  obtain a b c where "u1 = Vec3 (Fin a) (Fin b) (Fin c)" using f(1) by (rule finite_vecE)
  moreover obtain d e f' where "u2 = Vec3 (Fin d) (Fin e) (Fin f')" using f(2) by (rule finite_vecE)
  moreover obtain g h i where "u3 = Vec3 (Fin g) (Fin h) (Fin i)" using f(3) by (rule finite_vecE)
  ultimately show ?thesis using that R by blast
qed

section \<open>Values of the evaluators\<close>

lemma Circle_fields:
  "center_m (Circle center normal radius speed) = center"
  "radius_m (Circle center normal radius speed) = radius"
  "vehicle_speed_m (Circle center normal radius speed) = speed"
  "normal_m (Circle center normal radius speed) = normal"
  by (simp_all add: Circle_def Let_def)

text \<open>At radius 0 both components of the derivative are products with 0.\<close>

lemma d_pd_zero_radius:
  assumes "finite_mat (rotation_m C)" and "radius_m C = Fin 0"
  shows "d_pd C (Fin t) = Vec3 (Fin 0) (Fin 0) (Fin 0)"
proof -
  obtain a b c d e f g h i :: real where
    "rotation_m C = Mat3 (Vec3 (Fin a) (Fin b) (Fin c)) (Vec3 (Fin d) (Fin e) (Fin f)) (Vec3 (Fin g) (Fin h) (Fin i))"
    using assms(1) by (rule finite_matE)
  then show ?thesis by (simp add: d_pd_def Let_def assms(2) M_PI_def)
qed



section \<open>Progress rate at radius zero\<close>

text \<open>
  Claim C1, as stated: for a circle constructed with radius 0, \<open>vd\<close> returns exactly
  1e-8 for every gamma. The source guards the division with
  \<^verbatim>\<open>if(derivative_norm != 0)\<close>: at radius 0 the derivative is the zero vector, the
  division is skipped, \<open>vd\<close> keeps its initial value 0.0, and 0.0 is finite, so the
  1e-8 of the \<^verbatim>\<open>isfinite\<close> test is not substituted.
\<close>

theorem vd_zero_radius_counterexample:
  "vd (Circle (Vec3 (Fin 0) (Fin 0) (Fin 0)) (Vec3 (Fin 0) (Fin 0) (Fin 1)) (Fin 0) (Fin 2)) (Fin 0)
     = Fin 0 \<and>
   vd (Circle (Vec3 (Fin 0) (Fin 0) (Fin 0)) (Vec3 (Fin 0) (Fin 0) (Fin 1)) (Fin 0) (Fin 2)) (Fin 0)
     \<noteq> Fin (1 / 100000000)"
  by (simp add: vd_def d_pd_def M_PI_def Circle_def Let_def norm_vec_def squaredNorm_def dsub_def
      rotation_init_def Identity_def)

text \<open>
  Claim C1, amended: for a circle constructed with radius 0 and a finite normal, at every
  gamma of magnitude at most \<open>10 ^ 300\<close> the norm of the derivative is 0 and \<open>vd\<close>
  returns 0; the center and the vehicle speed are arbitrary. The bound keeps
  \<^verbatim>\<open>gamma * 2 * M_PI\<close> inside the range of a double, where the sine and cosine are
  finite and their products with the radius 0 are zeros, also in double arithmetic. A
  larger gamma overflows to an infinity, the sine of it is NaN, and the comparison with
  0 no longer skips the division.
\<close>

theorem vd_zero_radius:
  assumes "finite_vec normal" and "\<bar>t\<bar> \<le> 10 ^ 300"
    and "C = Circle center normal (Fin 0) speed"
  shows "norm_vec (d_pd C (Fin t)) = Fin 0 \<and> vd C (Fin t) = Fin 0"
proof -
  have R: "finite_mat (rotation_m C)"
    unfolding assms(3) using assms(1) by (rule Circle_rotation_finite)
  have r: "radius_m C = Fin 0" unfolding assms(3) by (rule Circle_fields)
  have n: "norm_vec (d_pd C (Fin t)) = Fin 0"
    unfolding d_pd_zero_radius [OF R r] by (simp add: norm_vec_def squaredNorm_def)
  have "vd C (Fin t) = Fin 0" by (simp add: vd_def n)
  with n show ?thesis by (rule conjI)
qed

theorem vd_zero_radius_witness:
  "finite_vec (Vec3 (Fin 1) (Fin 0) (Fin 0)) \<and> \<bar>1 / 4 :: real\<bar> \<le> 10 ^ 300 \<and>
   norm_vec (d_pd (Circle (Vec3 (Fin 1) (Fin 2) (Fin 3)) (Vec3 (Fin 1) (Fin 0) (Fin 0)) (Fin 0) (Fin 2))
      (Fin (1 / 4))) = Fin 0 \<and>
   vd (Circle (Vec3 (Fin 1) (Fin 2) (Fin 3)) (Vec3 (Fin 1) (Fin 0) (Fin 0)) (Fin 0) (Fin 2))
      (Fin (1 / 4)) = Fin 0"
proof -
  have h1: "finite_vec (Vec3 (Fin 1) (Fin 0) (Fin 0))" by simp
  have h2: "\<bar>1 / 4 :: real\<bar> \<le> 10 ^ 300" by simp
  show ?thesis
    using vd_zero_radius [OF h1 h2 refl, of "Vec3 (Fin 1) (Fin 2) (Fin 3)" "Fin 2"] h1 h2
    by blast
qed

text \<open>
  The 1e-8 of the \<^verbatim>\<open>isfinite\<close> test is what \<open>vd\<close> returns when the quotient is
  not finite, for instance at an infinite vehicle speed with radius 1.
\<close>

lemma vd_fallback_infinite_speed:
  "vd (Circle (Vec3 (Fin 0) (Fin 0) (Fin 0)) (Vec3 (Fin 0) (Fin 0) (Fin 1)) (Fin 1) PInf) (Fin 0)
     = Fin (1 / 100000000)"
  by (simp add: vd_def d_pd_def M_PI_def Circle_def Let_def norm_vec_def squaredNorm_def dsub_def
      rotation_init_def Identity_def)

section \<open>Orthonormality of the rotation matrix\<close>

text \<open>
  Claim C2: the rotation matrix of every constructed circle is orthonormal, whatever the
  normal, un-normalized normals included. The constructor means to catch the normals
  parallel to the axis (its comments: the matrix "would be ill-posed" otherwise, and,
  after the test, "now that we know that the vector is valid"), but it tests the normal
  before normalizing it. The normal (0, 0, 2) is parallel to the axis and not within 1e-4
  of (0, 0, 1): the frame is built, the normalized normal is (0, 0, 1), its cross product
  with the base normal is the zero vector, and the matrix is not orthonormal. With
  \<^verbatim>\<open>normalized()\<close> as modelled here its first two rows are zero; a
  \<^verbatim>\<open>normalized()\<close> that divided by the norm would make them NaN, and the matrix is
  not orthonormal then either. The theorem evaluates the constructor at that normal.
\<close>

theorem Circle_rotation_parallel_normal:
  "dgt (norm_vec (vsub (array_abs (Vec3 (Fin 0) (Fin 0) (Fin 2))) (Vec3 (Fin 0) (Fin 0) (Fin 1))))
     (Fin (1 / 10000)) \<and>
   normalized (Vec3 (Fin 0) (Fin 0) (Fin 2)) = Vec3 (Fin 0) (Fin 0) (Fin 1) \<and>
   cross (normalized (Vec3 (Fin 0) (Fin 0) (Fin 2))) (Vec3 (Fin 0) (Fin 0) (Fin 1))
     = Vec3 (Fin 0) (Fin 0) (Fin 0) \<and>
   rotation_m (Circle (Vec3 (Fin 0) (Fin 0) (Fin 0)) (Vec3 (Fin 0) (Fin 0) (Fin 2)) (Fin 1) (Fin 1))
     = Mat3 (Vec3 (Fin 0) (Fin 0) (Fin 0)) (Vec3 (Fin 0) (Fin 0) (Fin 0)) (Vec3 (Fin 0) (Fin 0) (Fin 1)) \<and>
   \<not> orthonormal (rotation_m (Circle (Vec3 (Fin 0) (Fin 0) (Fin 0)) (Vec3 (Fin 0) (Fin 0) (Fin 2))
       (Fin 1) (Fin 1)))"
  by (simp add: Circle_def Let_def norm_vec_def squaredNorm_def dsub_def normalized_def)

section \<open>Distance of the position from the center\<close>




section \<open>The identity rotation\<close>

text \<open>
  Claim C4: a circle constructed with the normal (0, 0, 1) or (0, 0, -1) has the identity
  as its rotation matrix, and so has every circle whose normal, taken componentwise in
  absolute value, lies within 1e-4 (Euclidean distance) of (0, 0, 1).
\<close>

theorem Circle_rotation_identity_axis:
  "rotation_m (Circle center (Vec3 (Fin 0) (Fin 0) (Fin 1)) radius speed) = Identity \<and>
   rotation_m (Circle center (Vec3 (Fin 0) (Fin 0) (Fin (- 1))) radius speed) = Identity \<and>
   (sqrt (x * x + y * y + (\<bar>z\<bar> - 1) * (\<bar>z\<bar> - 1)) \<le> 1 / 10000 \<longrightarrow>
      rotation_m (Circle center (Vec3 (Fin x) (Fin y) (Fin z)) radius speed) = Identity)"
proof -
  have nv: "norm_vec (vsub (array_abs (Vec3 (Fin a) (Fin b) (Fin c))) (Vec3 (Fin 0) (Fin 0) (Fin 1)))
      = Fin (sqrt (a * a + b * b + (\<bar>c\<bar> - 1) * (\<bar>c\<bar> - 1)))" for a b c :: real
    by (simp add: norm_vec_def squaredNorm_def dsub_def)
  have 1: "rotation_m (Circle center (Vec3 (Fin 0) (Fin 0) (Fin 1)) radius speed) = Identity"
    by (rule Circle_rotation_identity) (simp add: norm_vec_def squaredNorm_def dsub_def)
  have 2: "rotation_m (Circle center (Vec3 (Fin 0) (Fin 0) (Fin (- 1))) radius speed) = Identity"
    by (rule Circle_rotation_identity) (simp add: norm_vec_def squaredNorm_def dsub_def)
  have 3: "sqrt (x * x + y * y + (\<bar>z\<bar> - 1) * (\<bar>z\<bar> - 1)) \<le> 1 / 10000 \<longrightarrow>
      rotation_m (Circle center (Vec3 (Fin x) (Fin y) (Fin z)) radius speed) = Identity"
  proof
    assume "sqrt (x * x + y * y + (\<bar>z\<bar> - 1) * (\<bar>z\<bar> - 1)) \<le> 1 / 10000"
    then have "\<not> dgt (norm_vec (vsub (array_abs (Vec3 (Fin x) (Fin y) (Fin z))) (Vec3 (Fin 0) (Fin 0) (Fin 1))))
        (Fin (1 / 10000))"
      unfolding nv by simp
    then show "rotation_m (Circle center (Vec3 (Fin x) (Fin y) (Fin z)) radius speed) = Identity"
      by (rule Circle_rotation_identity)
  qed
  from 1 2 3 show ?thesis by blast
qed

theorem Circle_rotation_identity_axis_witness:
  "sqrt (0 * 0 + 0 * 0 + (\<bar>- (20001 / 20000)\<bar> - 1) * (\<bar>- (20001 / 20000)\<bar> - 1)) \<le> (1::real) / 10000 \<and>
   rotation_m (Circle (Vec3 (Fin 1) (Fin 2) (Fin 3)) (Vec3 (Fin 0) (Fin 0) (Fin (- (20001 / 20000))))
      (Fin 5) (Fin 2)) = Identity"
proof -
  have "sqrt (0 * 0 + 0 * 0 + (\<bar>- (20001 / 20000)\<bar> - 1) * (\<bar>- (20001 / 20000)\<bar> - 1))
      = sqrt ((1 / 20000) * (1 / 20000 :: real))"
    by simp
  also have "\<dots> = \<bar>1 / 20000\<bar>" by (rule real_sqrt_abs2)
  finally have h: "sqrt (0 * 0 + 0 * 0 + (\<bar>- (20001 / 20000)\<bar> - 1) * (\<bar>- (20001 / 20000)\<bar> - 1))
      \<le> (1::real) / 10000"
    by simp
  show ?thesis
    using Circle_rotation_identity_axis [of "Vec3 (Fin 1) (Fin 2) (Fin 3)" "Fin 5" "Fin 2" 0 0 "- (20001 / 20000)"] h
    by blast
qed

section \<open>Norm of the first derivative\<close>




end
